theory Spec2Isabelle
  imports Complex_Main "HOL-Library.Word" "HOL-Library.Log_Nat"
begin

section \<open>float64: IEEE 754 binary64 values and arithmetic\<close>

text \<open>
  The matrix entries of \<^verbatim>\<open>graphics/affine.go\<close> are Go \<^verbatim>\<open>float64\<close> values. A value is
  a finite number (a rational; the positive zero is \<open>Fin 0\<close>), the negative zero, an
  infinity with its sign (\<open>True\<close> is the sign bit set), or a NaN (one NaN: payloads are
  not told apart). Every operation rounds its exact result to the nearest binary64
  value, ties to even, as Go does on each single operation; the fusing of \<open>x*y + z\<close>
  into one rounding, which Go allows on some targets, is not modelled.
\<close>

datatype f64 = Fin rat | NegZero | Infty bool | NaN

fun is_nan :: "f64 \<Rightarrow> bool" where
  "is_nan NaN = True"
| "is_nan _ = False"

fun is_inf :: "f64 \<Rightarrow> bool" where
  "is_inf (Infty _) = True"
| "is_inf _ = False"

fun is_finite :: "f64 \<Rightarrow> bool" where
  "is_finite (Fin _) = True"
| "is_finite NegZero = True"
| "is_finite _ = False"

fun sign :: "f64 \<Rightarrow> bool" where
  "sign (Fin q) = (q < 0)"
| "sign NegZero = True"
| "sign (Infty s) = s"
| "sign NaN = False"

fun val :: "f64 \<Rightarrow> rat" where
  "val (Fin q) = q"
| "val _ = 0"

definition is_zero :: "f64 \<Rightarrow> bool" where
  "is_zero x = (is_finite x \<and> val x = 0)"

definition signed_zero :: "bool \<Rightarrow> f64" where
  "signed_zero s = (if s then NegZero else Fin 0)"

definition pow2 :: "int \<Rightarrow> rat" where
  "pow2 e = (if 0 \<le> e then 2 ^ nat e else 1 / 2 ^ nat (- e))"

text \<open>The exponent \<open>k\<close> with \<open>2^k \<le> m < 2^(k+1)\<close>, for a positive rational \<open>m\<close>.\<close>

definition floor_log2 :: "rat \<Rightarrow> int" where
  "floor_log2 m =
     (let (n, d) = quotient_of m; k = bitlen n - bitlen d
      in if pow2 k \<le> m then k else k - 1)"

text \<open>The nearest integer, a tie going to the even one.\<close>

definition rne :: "rat \<Rightarrow> int" where
  "rne q =
     (let f = \<lfloor>q\<rfloor>; r = q - of_int f
      in if r < 1 / 2 then f
         else if 1 / 2 < r then f + 1
         else if even f then f else f + 1)"

text \<open>
  \<open>round64 s m\<close> is the binary64 value nearest to the magnitude \<open>m \<ge> 0\<close> with sign
  \<open>s\<close>: 53 bits of precision, the least exponent \<open>-1074\<close> (gradual underflow), and an
  infinity once the rounded magnitude reaches \<open>2^1024\<close>.
\<close>

definition round64 :: "bool \<Rightarrow> rat \<Rightarrow> f64" where
  "round64 s m =
     (if m = 0 then signed_zero s
      else let e = max (floor_log2 m - 52) (- 1074);
               v = of_int (rne (m / pow2 e)) * pow2 e
           in if v = 0 then signed_zero s
              else if 2 ^ 1024 \<le> v then Infty s
              else Fin (if s then - v else v))"

definition fneg :: "f64 \<Rightarrow> f64" where
  "fneg x =
     (case x of
        Fin q \<Rightarrow> (if q = 0 then NegZero else Fin (- q))
      | NegZero \<Rightarrow> Fin 0
      | Infty s \<Rightarrow> Infty (\<not> s)
      | NaN \<Rightarrow> NaN)"

definition fadd :: "f64 \<Rightarrow> f64 \<Rightarrow> f64" where
  "fadd x y =
     (if is_nan x \<or> is_nan y then NaN
      else if is_inf x then (if is_inf y \<and> sign x \<noteq> sign y then NaN else x)
      else if is_inf y then y
      else let v = val x + val y
           in if v = 0 then signed_zero (sign x \<and> sign y)
              else round64 (v < 0) \<bar>v\<bar>)"

definition fsub :: "f64 \<Rightarrow> f64 \<Rightarrow> f64" where
  "fsub x y = fadd x (fneg y)"

definition fmul :: "f64 \<Rightarrow> f64 \<Rightarrow> f64" where
  "fmul x y =
     (if is_nan x \<or> is_nan y then NaN
      else if is_inf x \<or> is_inf y
        then (if is_zero x \<or> is_zero y then NaN else Infty (sign x \<noteq> sign y))
      else round64 (sign x \<noteq> sign y) (\<bar>val x\<bar> * \<bar>val y\<bar>))"

definition fdiv :: "f64 \<Rightarrow> f64 \<Rightarrow> f64" where
  "fdiv x y =
     (if is_nan x \<or> is_nan y then NaN
      else if is_inf x then (if is_inf y then NaN else Infty (sign x \<noteq> sign y))
      else if is_inf y then signed_zero (sign x \<noteq> sign y)
      else if is_zero y then (if is_zero x then NaN else Infty (sign x \<noteq> sign y))
      else round64 (sign x \<noteq> sign y) (\<bar>val x\<bar> / \<bar>val y\<bar>))"

text \<open>
  Comparisons order the values on the extended line, the two zeros being equal; every
  comparison with a NaN is false.
\<close>

fun rank :: "f64 \<Rightarrow> int" where
  "rank (Infty s) = (if s then - 1 else 1)"
| "rank _ = 0"

definition flt :: "f64 \<Rightarrow> f64 \<Rightarrow> bool" where
  "flt x y =
     (\<not> is_nan x \<and> \<not> is_nan y \<and> (rank x < rank y \<or> (rank x = rank y \<and> val x < val y)))"

definition fge :: "f64 \<Rightarrow> f64 \<Rightarrow> bool" where
  "fge x y =
     (\<not> is_nan x \<and> \<not> is_nan y \<and> (rank y < rank x \<or> (rank x = rank y \<and> val y \<le> val x)))"

definition feq :: "f64 \<Rightarrow> f64 \<Rightarrow> bool" where
  "feq x y = (\<not> is_nan x \<and> \<not> is_nan y \<and> rank x = rank y \<and> val x = val y)"

text \<open>
  Go's \<^verbatim>\<open>int\<close> is a signed machine integer of 32 or 64 bits, depending on the target:
  a word of any length \<open>'w\<close>, read as signed. \<open>float64 i\<close> is the conversion
  \<^verbatim>\<open>float64(i)\<close>.
\<close>

definition float64 :: "'w::len word \<Rightarrow> f64" where
  "float64 i = round64 (sint i < 0) \<bar>of_int (sint i)\<bar>"

section \<open>Affine: the 3x3 matrix and its algebra\<close>

text \<open>
  \<^verbatim>\<open>type Affine [9]float64\<close>: an array of fixed size whose indices are constants in the
  source, so a record of nine fields, \<open>e0\<close> to \<open>e8\<close> for \<^verbatim>\<open>a[0]\<close> to \<^verbatim>\<open>a[8]\<close>.
\<close>

record Affine =
  e0 :: f64
  e1 :: f64
  e2 :: f64
  e3 :: f64
  e4 :: f64
  e5 :: f64
  e6 :: f64
  e7 :: f64
  e8 :: f64

definition I :: Affine where
  "I = \<lparr>e0 = Fin 1, e1 = Fin 0, e2 = Fin 0,
        e3 = Fin 0, e4 = Fin 1, e5 = Fin 0,
        e6 = Fin 0, e7 = Fin 0, e8 = Fin 1\<rparr>"

definition Mul :: "Affine \<Rightarrow> Affine \<Rightarrow> Affine" where
  "Mul a b =
     \<lparr>e0 = fadd (fadd (fmul (e0 a) (e0 b)) (fmul (e1 a) (e3 b))) (fmul (e2 a) (e6 b)),
      e1 = fadd (fadd (fmul (e0 a) (e1 b)) (fmul (e1 a) (e4 b))) (fmul (e2 a) (e7 b)),
      e2 = fadd (fadd (fmul (e0 a) (e2 b)) (fmul (e1 a) (e5 b))) (fmul (e2 a) (e8 b)),
      e3 = fadd (fadd (fmul (e3 a) (e0 b)) (fmul (e4 a) (e3 b))) (fmul (e5 a) (e6 b)),
      e4 = fadd (fadd (fmul (e3 a) (e1 b)) (fmul (e4 a) (e4 b))) (fmul (e5 a) (e7 b)),
      e5 = fadd (fadd (fmul (e3 a) (e2 b)) (fmul (e4 a) (e5 b))) (fmul (e5 a) (e8 b)),
      e6 = fadd (fadd (fmul (e6 a) (e0 b)) (fmul (e7 a) (e3 b))) (fmul (e8 a) (e6 b)),
      e7 = fadd (fadd (fmul (e6 a) (e1 b)) (fmul (e7 a) (e4 b))) (fmul (e8 a) (e7 b)),
      e8 = fadd (fadd (fmul (e6 a) (e2 b)) (fmul (e7 a) (e5 b))) (fmul (e8 a) (e8 b))\<rparr>"

definition Scale :: "Affine \<Rightarrow> f64 \<Rightarrow> f64 \<Rightarrow> Affine" where
  "Scale a x y =
     Mul a \<lparr>e0 = fdiv (Fin 1) x, e1 = Fin 0, e2 = Fin 0,
            e3 = Fin 0, e4 = fdiv (Fin 1) y, e5 = Fin 0,
            e6 = Fin 0, e7 = Fin 0, e8 = Fin 1\<rparr>"

text \<open>
  \<^verbatim>\<open>math.Sincos\<close> belongs to Go's library, not to this package: \<open>Rotate\<close> takes it as
  the parameter \<open>sincos\<close>, which returns the pair (sine, cosine).
\<close>

definition Rotate :: "(f64 \<Rightarrow> f64 \<times> f64) \<Rightarrow> Affine \<Rightarrow> f64 \<Rightarrow> Affine" where
  "Rotate sincos a angle =
     (let (s, c) = sincos angle
      in Mul a \<lparr>e0 = c, e1 = s, e2 = Fin 0,
                e3 = fneg s, e4 = c, e5 = Fin 0,
                e6 = Fin 0, e7 = Fin 0, e8 = Fin 1\<rparr>)"

definition Shear :: "Affine \<Rightarrow> f64 \<Rightarrow> f64 \<Rightarrow> Affine" where
  "Shear a x y =
     (let d = fsub (Fin 1) (fmul x y)
      in Mul a \<lparr>e0 = fdiv (Fin 1) d, e1 = fdiv (fneg x) d, e2 = Fin 0,
                e3 = fdiv (fneg y) d, e4 = fdiv (Fin 1) d, e5 = Fin 0,
                e6 = Fin 0, e7 = Fin 0, e8 = Fin 1\<rparr>)"

definition Translate :: "Affine \<Rightarrow> f64 \<Rightarrow> f64 \<Rightarrow> Affine" where
  "Translate a x y =
     Mul a \<lparr>e0 = Fin 1, e1 = Fin 0, e2 = fneg x,
            e3 = Fin 0, e4 = Fin 1, e5 = fneg y,
            e6 = Fin 0, e7 = Fin 0, e8 = Fin 1\<rparr>"

definition Center :: "Affine \<Rightarrow> f64 \<Rightarrow> f64 \<Rightarrow> Affine" where
  "Center a x y = Translate (Mul (Translate I (fneg x) (fneg y)) a) x y"

subsection \<open>Points and rectangles of Go's image package\<close>

text \<open>
  \<^verbatim>\<open>image.Point\<close> and \<^verbatim>\<open>image.Rectangle\<close>. The coordinate type \<open>'i\<close> is instantiated
  with the machine integers \<open>'w word\<close>; the fields \<^verbatim>\<open>Min\<close> and \<^verbatim>\<open>Max\<close> are \<open>MinP\<close> and
  \<open>MaxP\<close> here.
\<close>

record 'i Point =
  X :: 'i
  Y :: 'i

record 'i Rectangle =
  MinP :: "'i Point"
  MaxP :: "'i Point"

text \<open>\<^verbatim>\<open>r.Dx()\<close> is \<^verbatim>\<open>r.Max.X - r.Min.X\<close> on machine integers: it wraps.\<close>

definition Dx :: "'w::len word Rectangle \<Rightarrow> 'w word" where
  "Dx r = X (MaxP r) - X (MinP r)"

definition Dy :: "'w::len word Rectangle \<Rightarrow> 'w word" where
  "Dy r = Y (MaxP r) - Y (MinP r)"

definition CenterFit :: "Affine \<Rightarrow> 'w::len word Rectangle \<Rightarrow> 'w word Rectangle \<Rightarrow> Affine" where
  "CenterFit a dst src =
     (let dx = fadd (float64 (X (MinP dst))) (fdiv (float64 (Dx dst)) (Fin 2));
          dy = fadd (float64 (Y (MinP dst))) (fdiv (float64 (Dy dst)) (Fin 2));
          sx = fadd (float64 (X (MinP src))) (fdiv (float64 (Dx src)) (Fin 2));
          sy = fadd (float64 (Y (MinP src))) (fdiv (float64 (Dy src)) (Fin 2))
      in Translate (Mul (Translate I (fneg sx) (fneg sy)) a) dx dy)"

section \<open>The coordinate map and the bounds check\<close>

definition inBounds :: "'w::len word Rectangle \<Rightarrow> f64 \<Rightarrow> f64 \<Rightarrow> bool" where
  "inBounds b x y =
     (if flt x (float64 (X (MinP b))) \<or> fge x (float64 (X (MaxP b))) then False
      else if flt y (float64 (Y (MinP b))) \<or> fge y (float64 (Y (MaxP b))) then False
      else True)"

definition pt :: "Affine \<Rightarrow> 'w::len word \<Rightarrow> 'w word \<Rightarrow> f64 \<times> f64" where
  "pt a x0 y0 =
     (let fx = fadd (float64 x0) (Fin (1 / 2));
          fy = fadd (float64 y0) (Fin (1 / 2));
          x1 = fadd (fadd (fmul fx (e0 a)) (fmul fy (e1 a))) (e2 a);
          y1 = fadd (fadd (fmul fx (e3 a)) (fmul fy (e4 a))) (e5 a)
      in (x1, y1))"

section \<open>Images, and the heap they live in\<close>

text \<open>
  Go's \<^verbatim>\<open>image\<close> and \<^verbatim>\<open>image/draw\<close> packages are not part of this package; what
  \<open>Transform\<close> uses of them is modelled here. A colour is the four 8-bit channels of
  \<^verbatim>\<open>image.RGBAColor\<close>. An \<^verbatim>\<open>*image.RGBA\<close> has its rectangle and its pixels, addressed
  by coordinates (the layout of \<^verbatim>\<open>Pix\<close> and \<^verbatim>\<open>Stride\<close> is abstracted). Any other
  implementation of \<^verbatim>\<open>draw.Image\<close> has its bounds, its pixels as \<^verbatim>\<open>At\<close> shows them, and
  the conversion \<open>GConv\<close> that its colour model applies to a colour given to \<^verbatim>\<open>Set\<close>.
\<close>

type_synonym RGBAColor = "8 word \<times> 8 word \<times> 8 word \<times> 8 word"

record 'i RGBA =
  Pix :: "'i \<times> 'i \<Rightarrow> RGBAColor"
  Rect :: "'i Rectangle"

record 'i Generic =
  GBounds :: "'i Rectangle"
  GAt :: "'i \<times> 'i \<Rightarrow> RGBAColor"
  GConv :: "RGBAColor \<Rightarrow> RGBAColor"

datatype 'i Image = ImRGBA "'i RGBA" | ImOther "'i Generic"

text \<open>
  Images are objects behind pointers, and \<open>dst\<close> and \<open>src\<close> may be one object: the heap
  maps an address to the image stored there. A pointer is an address or the nil pointer.
  An interface value is \<open>None\<close> for the \<^verbatim>\<open>nil\<close> interface, or \<open>Some\<close> pointer: a non-nil
  interface value may hold a nil pointer, such as \<^verbatim>\<open>(*image.RGBA)(nil)\<close>, and then it is not
  equal to \<^verbatim>\<open>nil\<close>. Two distinct RGBA objects that share their pixel memory (a sub-image)
  are not modelled.
\<close>

type_synonym 'i heap = "nat \<Rightarrow> 'i Image"

datatype ref = NilPtr | Addr nat

datatype os_Error = NewError string

datatype panic = NilDereference | NewRGBARefused

text \<open>
  A method call on the \<^verbatim>\<open>nil\<close> interface value panics, and so does \<^verbatim>\<open>Bounds()\<close> on a nil
  pointer of an image type, which reads a field of the object.
\<close>

fun deref :: "'i heap \<Rightarrow> ref option \<Rightarrow> panic + (nat \<times> 'i Image)" where
  "deref h None = Inl NilDereference"
| "deref h (Some NilPtr) = Inl NilDereference"
| "deref h (Some (Addr p)) = Inr (p, h p)"

text \<open>\<^verbatim>\<open>p.In(r)\<close>: the half-open rectangle, on signed integers.\<close>

definition In :: "'w::len word \<times> 'w word \<Rightarrow> 'w word Rectangle \<Rightarrow> bool" where
  "In q r =
     (X (MinP r) \<le>s fst q \<and> fst q <s X (MaxP r) \<and> Y (MinP r) \<le>s snd q \<and> snd q <s Y (MaxP r))"

fun Bounds :: "'i Image \<Rightarrow> 'i Rectangle" where
  "Bounds (ImRGBA p) = Rect p"
| "Bounds (ImOther g) = GBounds g"

text \<open>The type assertion \<^verbatim>\<open>img.(*image.RGBA)\<close> succeeds on an RGBA object only.\<close>

fun is_RGBA :: "'i Image \<Rightarrow> bool" where
  "is_RGBA (ImRGBA p) = True"
| "is_RGBA (ImOther g) = False"

fun At :: "'w::len word Image \<Rightarrow> 'w word \<times> 'w word \<Rightarrow> RGBAColor" where
  "At (ImRGBA p) q = (if In q (Rect p) then Pix p q else (0, 0, 0, 0))"
| "At (ImOther g) q = GAt g q"

text \<open>
  \<^verbatim>\<open>image.NewRGBA(r)\<close>: a fresh buffer of rectangle \<open>r\<close>, every pixel zero. It panics when
  the buffer length \<open>4 * r.Dx() * r.Dy()\<close> is refused: a negative width or height, or a
  product that does not fit the machine integer (the library multiplies \<open>4\<close> by the width
  first, then by the height, and refuses as soon as one product overflows).
\<close>

definition rgba_size_ok :: "'w::len word Rectangle \<Rightarrow> bool" where
  "rgba_size_ok r =
     (0 \<le> sint (Dx r) \<and> 0 \<le> sint (Dy r)
      \<and> 4 * sint (Dx r) < 2 ^ LENGTH('w)
      \<and> 4 * sint (Dx r) * sint (Dy r) < 2 ^ (LENGTH('w) - 1))"

definition NewRGBA :: "'w::len word Rectangle \<Rightarrow> panic + 'w word RGBA" where
  "NewRGBA r =
     (if rgba_size_ok r then Inr \<lparr>Pix = (\<lambda>q. (0, 0, 0, 0)), Rect = r\<rparr>
      else Inl NewRGBARefused)"

text \<open>
  \<^verbatim>\<open>draw.Draw(dst, r, src, sp, draw.Src)\<close> aligns \<open>r.Min\<close> in \<open>dst\<close> with \<open>sp\<close> in \<open>src\<close>
  and replaces every pixel of \<open>r\<close>, clipped to both images, by the source pixel, which
  the destination converts to its own colour model.
\<close>

definition src_point :: "'w::len word Rectangle \<Rightarrow> 'w word Point \<Rightarrow> 'w word \<times> 'w word \<Rightarrow> 'w word \<times> 'w word" where
  "src_point r sp q = (fst q + (X sp - X (MinP r)), snd q + (Y sp - Y (MinP r)))"

definition drawn :: "'w::len word Rectangle \<Rightarrow> 'w word Rectangle \<Rightarrow> 'w word Rectangle \<Rightarrow> 'w word Point \<Rightarrow> 'w word \<times> 'w word \<Rightarrow> bool" where
  "drawn dstb r srcb sp q = (In q r \<and> In q dstb \<and> In (src_point r sp q) srcb)"

definition draw_RGBA :: "'w::len word RGBA \<Rightarrow> 'w word Rectangle \<Rightarrow> 'w word Image \<Rightarrow> 'w word Point \<Rightarrow> 'w word RGBA" where
  "draw_RGBA p r src sp =
     p\<lparr>Pix := (\<lambda>q. if drawn (Rect p) r (Bounds src) sp q
                    then At src (src_point r sp q) else Pix p q)\<rparr>"

definition draw_Draw :: "'w::len word Image \<Rightarrow> 'w word Rectangle \<Rightarrow> 'w word Image \<Rightarrow> 'w word Point \<Rightarrow> 'w word Image" where
  "draw_Draw dst r src sp =
     (case dst of
        ImRGBA p \<Rightarrow> ImRGBA (draw_RGBA p r src sp)
      | ImOther g \<Rightarrow>
          ImOther (g\<lparr>GAt := (\<lambda>q. if drawn (GBounds g) r (Bounds src) sp q
                                   then GConv g (At src (src_point r sp q)) else GAt g q)\<rparr>))"

section \<open>Transform: the pixel pipeline\<close>

text \<open>
  Modelled from the spec: \<^verbatim>\<open>binterpRGBA\<close>, the sampler that \<open>Transform\<close> calls, is code of
  this package that is not in \<^verbatim>\<open>affine.go\<close>. The spec gives its contract: it only reads
  the source buffer and writes exactly the one pixel \<open>(x, y)\<close> of the destination
  buffer, deterministically. The colour it computes is the parameter \<open>smp\<close>.
\<close>

type_synonym 'i sampler = "'i RGBA \<Rightarrow> f64 \<Rightarrow> f64 \<Rightarrow> RGBAColor"

definition binterpRGBA :: "'i sampler \<Rightarrow> 'i RGBA \<Rightarrow> 'i \<Rightarrow> 'i \<Rightarrow> 'i RGBA \<Rightarrow> f64 \<Rightarrow> f64 \<Rightarrow> 'i RGBA" where
  "binterpRGBA smp dst x y src sx sy = dst\<lparr>Pix := (Pix dst)((x, y) := smp src sx sy)\<rparr>"

text \<open>
  The body of the inner loop. \<open>same\<close> tells that \<open>srcRgba\<close> and \<open>dstRgba\<close> are one
  object, so that the sampler reads what the loop has written so far.
\<close>

definition pixel_step :: "'w::len word sampler \<Rightarrow> Affine \<Rightarrow> 'w word Rectangle \<Rightarrow> bool \<Rightarrow> 'w word RGBA \<Rightarrow> 'w word \<Rightarrow> 'w word \<Rightarrow> 'w word RGBA \<Rightarrow> 'w word RGBA" where
  "pixel_step smp a srcb same srcRgba y x dstRgba =
     (let (sx, sy) = pt a x y
      in if inBounds srcb sx sy
         then binterpRGBA smp dstRgba x y (if same then dstRgba else srcRgba) sx sy
         else dstRgba)"

text \<open>\<^verbatim>\<open>for x := b.Min.X; x < b.Max.X; x++\<close>, from the current \<open>x\<close>.\<close>

function xloop :: "'w::len word sampler \<Rightarrow> Affine \<Rightarrow> 'w word Rectangle \<Rightarrow> bool \<Rightarrow> 'w word RGBA \<Rightarrow> 'w word \<Rightarrow> 'w word \<Rightarrow> 'w word \<Rightarrow> 'w word RGBA \<Rightarrow> 'w word RGBA" where
  "xloop smp a srcb same srcRgba y xmax x dstRgba =
     (if x <s xmax
      then xloop smp a srcb same srcRgba y xmax (x + 1)
             (pixel_step smp a srcb same srcRgba y x dstRgba)
      else dstRgba)"
  by pat_completeness auto
termination
proof (relation "measure (\<lambda>(smp, a, srcb, same, srcRgba, y, xmax, x, dstRgba).
    nat (sint xmax - sint x))", goal_cases)
  case 1
  show ?case by simp
next
  case (2 smp a srcb same srcRgba y xmax x dstRgba)
  have lo: "- (2 ^ (size x - 1)) \<le> sint x + 1" using sint_ge [of x] by (simp add: word_size)
  have less: "sint x < sint xmax" using 2 by (simp add: word_sless_alt)
  then have hi: "sint x + 1 < 2 ^ (size x - 1)" using sint_lt [of xmax] by (simp add: word_size)
  have "x + 1 = word_of_int (sint x + 1)" by simp
  then have "sint (x + 1) = signed_take_bit (size x - 1) (sint x + 1)"
    by (simp only: sint_sbintrunc' word_size)
  also have "\<dots> = sint x + 1" using lo hi by (rule signed_take_bit_int_eq_self)
  finally show ?case using less by simp
qed

declare xloop.simps [simp del]

text \<open>\<^verbatim>\<open>for y := b.Min.Y; y < b.Max.Y; y++\<close>, from the current \<open>y\<close>.\<close>

function yloop :: "'w::len word sampler \<Rightarrow> Affine \<Rightarrow> 'w word Rectangle \<Rightarrow> bool \<Rightarrow> 'w word RGBA \<Rightarrow> 'w word Rectangle \<Rightarrow> 'w word \<Rightarrow> 'w word RGBA \<Rightarrow> 'w word RGBA" where
  "yloop smp a srcb same srcRgba b y dstRgba =
     (if y <s Y (MaxP b)
      then yloop smp a srcb same srcRgba b (y + 1)
             (xloop smp a srcb same srcRgba y (X (MaxP b)) (X (MinP b)) dstRgba)
      else dstRgba)"
  by pat_completeness auto
termination
proof (relation "measure (\<lambda>(smp, a, srcb, same, srcRgba, b, y, dstRgba).
    nat (sint (Y (MaxP b)) - sint y))", goal_cases)
  case 1
  show ?case by simp
next
  case (2 smp a srcb same srcRgba b y dstRgba)
  have lo: "- (2 ^ (size y - 1)) \<le> sint y + 1" using sint_ge [of y] by (simp add: word_size)
  have less: "sint y < sint (Y (MaxP b))" using 2 by (simp add: word_sless_alt)
  then have hi: "sint y + 1 < 2 ^ (size y - 1)" using sint_lt [of "Y (MaxP b)"] by (simp add: word_size)
  have "y + 1 = word_of_int (sint y + 1)" by simp
  then have "sint (y + 1) = signed_take_bit (size y - 1) (sint y + 1)"
    by (simp only: sint_sbintrunc' word_size)
  also have "\<dots> = sint y + 1" using lo hi by (rule signed_take_bit_int_eq_self)
  finally show ?case using less by simp
qed

declare yloop.simps [simp del]

text \<open>
  The normalization of the source, lines 49 to 54: an RGBA is taken as it is, any other
  image is drawn into a fresh RGBA of its bounds.
\<close>

definition srcRgba_of :: "'w::len word Image \<Rightarrow> panic + 'w word RGBA" where
  "srcRgba_of s =
     (let srcb = Bounds s
      in case s of
           ImRGBA p \<Rightarrow> Inr p
         | ImOther g \<Rightarrow>
             (case NewRGBA srcb of
                Inl e \<Rightarrow> Inl e
              | Inr buf \<Rightarrow> Inr (draw_RGBA buf srcb s (MinP srcb))))"

text \<open>
  The buffer the loop writes, lines 56 to 60: the destination itself when it is an RGBA,
  else a fresh RGBA of its bounds, which is not filled from the destination.
\<close>

definition dstRgba_of :: "'w::len word Image \<Rightarrow> panic + 'w word RGBA" where
  "dstRgba_of d = (case d of ImRGBA p \<Rightarrow> Inr p | ImOther g \<Rightarrow> NewRGBA (Bounds d))"

text \<open>
  \<open>Transform\<close> takes the heap and returns the error (\<open>None\<close> is \<^verbatim>\<open>nil\<close>) with the heap
  after the call, or a panic. An RGBA destination is written in place; any other
  destination gets the scratch buffer drawn back over its whole bounds. Every panic
  comes before the first write.
\<close>

definition Transform :: "'w::len word sampler \<Rightarrow> Affine \<Rightarrow> 'w word heap \<Rightarrow> ref option \<Rightarrow> ref option \<Rightarrow> panic + (os_Error option \<times> 'w word heap)" where
  "Transform smp a h dst src =
     (if dst = None then Inr (Some (NewError ''graphics: dst is nil''), h)
      else if src = None then Inr (Some (NewError ''graphics: src is nil''), h)
      else (case deref h src of
              Inl e \<Rightarrow> Inl e
            | Inr (sp, s) \<Rightarrow>
               (case srcRgba_of s of
                  Inl e \<Rightarrow> Inl e
                | Inr srcRgba \<Rightarrow>
                   (case deref h dst of
                      Inl e \<Rightarrow> Inl e
                    | Inr (dp, d) \<Rightarrow>
                       (case dstRgba_of d of
                          Inl e \<Rightarrow> Inl e
                        | Inr dstRgba \<Rightarrow>
                           (let srcb = Bounds s;
                                b = Bounds d;
                                ok = is_RGBA d;
                                same = (is_RGBA s \<and> ok \<and> sp = dp);
                                dstRgba' = yloop smp a srcb same srcRgba b (Y (MinP b)) dstRgba
                            in Inr (None, h(dp := (if ok then ImRGBA dstRgba'
                                                   else draw_Draw d b (ImRGBA dstRgba') (MinP b))))))))))"

definition TransformCenter :: "'w::len word sampler \<Rightarrow> Affine \<Rightarrow> 'w word heap \<Rightarrow> ref option \<Rightarrow> ref option \<Rightarrow> panic + (os_Error option \<times> 'w word heap)" where
  "TransformCenter smp a h dst src =
     (if dst = None then Inr (Some (NewError ''graphics: dst is nil''), h)
      else if src = None then Inr (Some (NewError ''graphics: src is nil''), h)
      else (case deref h dst of
              Inl e \<Rightarrow> Inl e
            | Inr (dp, d) \<Rightarrow>
               (case deref h src of
                  Inl e \<Rightarrow> Inl e
                | Inr (sp, s) \<Rightarrow> Transform smp (CenterFit a (Bounds d) (Bounds s)) h dst src)))"

text \<open>The pixel of the image at \<open>dp\<close> after a call that returned \<^verbatim>\<open>nil\<close>.\<close>

definition pixel_after :: "panic + (os_Error option \<times> 'w::len word heap) \<Rightarrow> nat \<Rightarrow> 'w word \<times> 'w word \<Rightarrow> RGBAColor option" where
  "pixel_after r dp q = (case r of Inr (None, h') \<Rightarrow> Some (At (h' dp) q) | _ \<Rightarrow> None)"

section \<open>The spec's formulas, written from its words\<close>

text \<open>
  The spec samples at the pixel centre \<open>(x + 0.5, y + 0.5)\<close> and applies a matrix row
  \<open>(r0, r1, r2)\<close> to a point as \<open>px * r0 + py * r1 + r2\<close>.
\<close>

definition pixel_centre :: "'w::len word \<Rightarrow> 'w word \<Rightarrow> f64 \<times> f64" where
  "pixel_centre x0 y0 = (fadd (float64 x0) (Fin (1 / 2)), fadd (float64 y0) (Fin (1 / 2)))"

definition row_at :: "f64 \<Rightarrow> f64 \<Rightarrow> f64 \<Rightarrow> f64 \<times> f64 \<Rightarrow> f64" where
  "row_at r0 r1 r2 p = fadd (fadd (fmul (fst p) r0) (fmul (snd p) r1)) r2"

definition matrix_at_centre :: "Affine \<Rightarrow> 'w::len word \<Rightarrow> 'w word \<Rightarrow> f64 \<times> f64" where
  "matrix_at_centre a x0 y0 =
     (row_at (e0 a) (e1 a) (e2 a) (pixel_centre x0 y0),
      row_at (e3 a) (e4 a) (e5 a) (pixel_centre x0 y0))"

text \<open>The spec's \<open>diag(p, q, r)\<close>.\<close>

definition diag3 :: "f64 \<Rightarrow> f64 \<Rightarrow> f64 \<Rightarrow> Affine" where
  "diag3 p q r =
     \<lparr>e0 = p, e1 = Fin 0, e2 = Fin 0,
      e3 = Fin 0, e4 = q, e5 = Fin 0,
      e6 = Fin 0, e7 = Fin 0, e8 = r\<rparr>"

text \<open>The spec's centroid of a rectangle: \<open>(Min.X + Dx/2, Min.Y + Dy/2)\<close>.\<close>

definition centroid :: "'w::len word Rectangle \<Rightarrow> f64 \<times> f64" where
  "centroid r =
     (fadd (float64 (X (MinP r))) (fdiv (float64 (Dx r)) (Fin 2)),
      fadd (float64 (Y (MinP r))) (fdiv (float64 (Dy r)) (Fin 2)))"

text \<open>
  The spec's inverse shear matrix: \<open>d = 1 - x*y\<close>, and the entries \<open>1/d\<close>, \<open>-x/d\<close>,
  \<open>-y/d\<close>, \<open>1/d\<close>.
\<close>

definition shear_inverse :: "f64 \<Rightarrow> f64 \<Rightarrow> Affine" where
  "shear_inverse x y =
     (let d = fsub (Fin 1) (fmul x y)
      in \<lparr>e0 = fdiv (Fin 1) d, e1 = fdiv (fneg x) d, e2 = Fin 0,
          e3 = fdiv (fneg y) d, e4 = fdiv (Fin 1) d, e5 = Fin 0,
          e6 = Fin 0, e7 = Fin 0, e8 = Fin 1\<rparr>)"

text \<open>
  The bottom row is \<open>(0, 0, 1)\<close>: Go's \<^verbatim>\<open>a[6] == 0 && a[7] == 0 && a[8] == 1\<close>, under
  which the two zeros are equal and a NaN equals nothing.
\<close>

definition bottom_row_ok :: "Affine \<Rightarrow> bool" where
  "bottom_row_ok a = (feq (e6 a) (Fin 0) \<and> feq (e7 a) (Fin 0) \<and> feq (e8 a) (Fin 1))"

definition top_rows_finite :: "Affine \<Rightarrow> bool" where
  "top_rows_finite a =
     (is_finite (e0 a) \<and> is_finite (e1 a) \<and> is_finite (e2 a) \<and>
      is_finite (e3 a) \<and> is_finite (e4 a) \<and> is_finite (e5 a))"

text \<open>
  The comment of \<open>TransformCenter\<close> and the spec give it as the composition
  \<^verbatim>\<open>a.CenterFit(dst.Bounds(), src.Bounds()).Transform(dst, src)\<close>: the two \<^verbatim>\<open>Bounds()\<close>
  calls, from left to right, and then \<open>Transform\<close>.
\<close>

definition CenterFit_then_Transform :: "'w::len word sampler \<Rightarrow> Affine \<Rightarrow> 'w word heap \<Rightarrow> ref option \<Rightarrow> ref option \<Rightarrow> panic + (os_Error option \<times> 'w word heap)" where
  "CenterFit_then_Transform smp a h dst src =
     (case deref h dst of
        Inl e \<Rightarrow> Inl e
      | Inr (dp, d) \<Rightarrow>
         (case deref h src of
            Inl e \<Rightarrow> Inl e
          | Inr (sp, s) \<Rightarrow> Transform smp (CenterFit a (Bounds d) (Bounds s)) h dst src))"

text \<open>
  An image can be normalized: it is an RGBA, or \<^verbatim>\<open>image.NewRGBA\<close> accepts its bounds.
\<close>

definition buffer_ok :: "'w::len word Image \<Rightarrow> bool" where
  "buffer_ok im = (is_RGBA im \<or> rgba_size_ok (Bounds im))"

section \<open>Concrete inputs\<close>

text \<open>
  \<open>mkRect\<close> is \<^verbatim>\<open>image.Rect\<close> on ordered corners. The images: a 1x1 RGBA source, and a
  2x1 destination filled with an opaque white sentinel, once as an \<^verbatim>\<open>*image.RGBA\<close> and
  once as another implementation whose colour model keeps every colour as it is. In
  \<open>heap_of d s\<close> the destination is at address 0 and the source at every other one.
\<close>

definition mkRect :: "'i \<Rightarrow> 'i \<Rightarrow> 'i \<Rightarrow> 'i \<Rightarrow> 'i Rectangle" where
  "mkRect x0 y0 x1 y1 = \<lparr>MinP = \<lparr>X = x0, Y = y0\<rparr>, MaxP = \<lparr>X = x1, Y = y1\<rparr>\<rparr>"

definition white :: RGBAColor where
  "white = (255, 255, 255, 255)"

definition const_sampler :: "RGBAColor \<Rightarrow> 'i sampler" where
  "const_sampler c src sx sy = c"

definition src_1x1 :: "64 word Image" where
  "src_1x1 = ImRGBA \<lparr>Pix = (\<lambda>q. (9, 9, 9, 255)), Rect = mkRect 0 0 1 1\<rparr>"

definition dst_2x1_RGBA :: "64 word Image" where
  "dst_2x1_RGBA = ImRGBA \<lparr>Pix = (\<lambda>q. white), Rect = mkRect 0 0 2 1\<rparr>"

definition dst_2x1_other :: "64 word Image" where
  "dst_2x1_other = ImOther \<lparr>GBounds = mkRect 0 0 2 1, GAt = (\<lambda>q. white), GConv = (\<lambda>c. c)\<rparr>"


definition heap_of :: "'i Image \<Rightarrow> 'i Image \<Rightarrow> 'i heap" where
  "heap_of d s = (\<lambda>p. if p = 0 then d else s)"

text \<open>A stand-in for \<^verbatim>\<open>math.Sincos\<close> that is right at the angle 0.\<close>

definition sincos_at_zero :: "f64 \<Rightarrow> f64 \<times> f64" where
  "sincos_at_zero angle = (Fin 0, Fin 1)"

section \<open>Facts about the rounding\<close>

text \<open>
  Three facts carry the rest: \<open>floor_log2\<close> is a lower bound of the logarithm; a value
  \<open>k * 2^e\<close> with a mantissa below \<open>2^53\<close> and an exponent in range is rounded to
  itself; and a magnitude bounded well below \<open>2^1024\<close> is rounded to a finite value.
\<close>

lemma pow2_powi: "pow2 e = 2 powi e"
  by (simp add: pow2_def power_int_def power_inverse [symmetric] inverse_eq_divide power_one_over)

lemma pow2_pos: "0 < pow2 e"
  by (simp add: pow2_powi)

lemma pow2_add: "pow2 (a + b) = pow2 a * pow2 b"
  by (simp add: pow2_powi power_int_add)

lemma pow2_diff: "pow2 (a - b) = pow2 a / pow2 b"
  by (simp add: pow2_powi power_int_diff)

lemma pow2_mono: "a \<le> b \<Longrightarrow> pow2 a \<le> pow2 b"
  by (simp add: pow2_powi power_int_increasing)

lemma pow2_less_imp: "pow2 a < pow2 b \<Longrightarrow> a < b"
  using pow2_mono [of b a] by (cases "a < b") auto

lemma pow2_nat: "0 \<le> e \<Longrightarrow> pow2 e = 2 ^ nat e"
  by (simp add: pow2_def)

lemma floor_log2_lower:
  assumes "0 < m"
  shows "pow2 (floor_log2 m) \<le> m"
proof -
  obtain n d where q: "quotient_of m = (n, d)" by (cases "quotient_of m")
  have d: "0 < d" using q by (rule quotient_of_denom_pos)
  have m: "m = of_int n / of_int d" using q by (rule quotient_of_div)
  have n: "0 < n" using assms d m by (simp add: zero_less_divide_iff)
  let ?k = "bitlen n - bitlen d"
  have bn: "1 \<le> bitlen n" using n by (simp add: bitlen_alt_def)
  have bd: "1 \<le> bitlen d" using d by (simp add: bitlen_alt_def)
  have "(2::int) ^ nat (bitlen n - 1) \<le> n" using bitlen_bounds [OF n] by simp
  then have "(of_int ((2::int) ^ nat (bitlen n - 1)) :: rat) \<le> of_int n"
    by (simp only: of_int_le_iff)
  then have ln: "pow2 (bitlen n - 1) \<le> of_int n" using bn by (simp add: pow2_nat)
  have "d < 2 ^ nat (bitlen d)" using bitlen_bounds [OF d] by simp
  then have "(of_int d :: rat) < of_int ((2::int) ^ nat (bitlen d))"
    by (simp only: of_int_less_iff)
  then have ud: "of_int d < pow2 (bitlen d)" using bd by (simp add: pow2_nat)
  have "pow2 (?k - 1) = pow2 (bitlen n - 1) / pow2 (bitlen d)"
    using pow2_diff [of "bitlen n - 1" "bitlen d"] by (simp add: algebra_simps)
  also have "\<dots> \<le> of_int n / of_int d"
    using ln ud d n pow2_pos [of "bitlen d"] pow2_pos [of "bitlen n - 1"]
    by (intro frac_le) auto
  finally have "pow2 (?k - 1) \<le> m" using m by simp
  then show ?thesis using q by (simp add: floor_log2_def Let_def)
qed

lemma rne_int: "rne (of_int k) = k"
  by (simp add: rne_def)

lemma round64_exact:
  assumes k: "0 < k" "k < 2 ^ 53" and e: "- 1074 \<le> e" "e \<le> 970"
  shows "round64 s (of_int k * pow2 e) = Fin (if s then - (of_int k * pow2 e) else of_int k * pow2 e)"
proof -
  let ?m = "of_int k * pow2 e :: rat"
  have mpos: "0 < ?m" using k pow2_pos by simp
  have "(of_int k :: rat) < of_int (2 ^ 53)" using k by (simp only: of_int_less_iff)
  then have "(of_int k :: rat) < pow2 53" by (simp add: pow2_def)
  then have "?m < pow2 53 * pow2 e" using pow2_pos [of e] by simp
  then have mlt: "?m < pow2 (53 + e)" by (simp add: pow2_add)
  have "pow2 (floor_log2 ?m) < pow2 (53 + e)"
    using floor_log2_lower [OF mpos] mlt by simp
  then have fl: "floor_log2 ?m < 53 + e" by (rule pow2_less_imp)
  define e' where "e' = max (floor_log2 ?m - 52) (- 1074)"
  have e': "e' \<le> e" using fl e by (simp add: e'_def)
  define j where "j = k * 2 ^ nat (e - e')"
  have "pow2 (e - e') = of_int (2 ^ nat (e - e'))" using e' by (simp add: pow2_nat)
  then have pe: "pow2 e = of_int (2 ^ nat (e - e')) * pow2 e'"
    using pow2_add [of "e - e'" e'] by simp
  have mj: "?m = of_int j * pow2 e'" by (simp add: pe j_def)
  have "?m / pow2 e' = of_int j" using pow2_pos [of e'] by (simp add: mj)
  then have "rne (?m / pow2 e') = j" by (simp only: rne_int)
  then have v: "of_int (rne (?m / pow2 e')) * pow2 e' = ?m" by (simp only: mj [symmetric])
  have "pow2 (53 + e) \<le> pow2 1023" using e by (intro pow2_mono) simp
  then have "?m < pow2 1024" using mlt pow2_mono [of 1023 1024] by simp
  then have small: "\<not> 2 ^ 1024 \<le> ?m" by (simp add: pow2_def)
  show ?thesis
    using mpos v small unfolding round64_def Let_def e'_def [symmetric]
    by (simp only: e'_def [symmetric] v) auto
qed

lemma round64_one: "round64 False 1 = Fin 1"
  using round64_exact [of 1 0 False] by (simp add: pow2_def)

lemma round64_half: "round64 s (1 / 2) = Fin (if s then - (1 / 2) else 1 / 2)"
  using round64_exact [of 1 "- 1" s] by (simp add: pow2_def)

text \<open>
  Two checks of the rounding where it is not exact: the binary64 value nearest to one
  tenth, and a tie (\<open>2^53 + 1\<close> lies halfway between two values) that goes to the even
  mantissa.
\<close>

lemma round64_tenth: "round64 False (1 / 10) = Fin (3602879701896397 / 36028797018963968)"
  by code_simp

lemma round64_tie_to_even: "round64 False (2 ^ 53 + 1) = Fin (2 ^ 53)"
  by code_simp

lemma rne_bounds: "0 \<le> q \<Longrightarrow> 0 \<le> rne q \<and> of_int (rne q) \<le> q + 1"
proof -
  assume q: "0 \<le> q"
  define f where "f = \<lfloor>q\<rfloor>"
  have f: "0 \<le> f" using q by (simp add: f_def)
  have "of_int f \<le> q" by (simp add: f_def)
  then show ?thesis using f unfolding rne_def Let_def f_def [symmetric] by auto
qed

lemma round64_bounded:
  assumes "0 \<le> m" "m \<le> B" "1 \<le> B" "2 * B < 2 ^ 1024"
  shows "is_finite (round64 s m) \<and> \<bar>val (round64 s m)\<bar> \<le> 2 * B"
proof (cases "m = 0")
  case True
  then show ?thesis using assms by (simp add: round64_def signed_zero_def)
next
  case False
  then have mpos: "0 < m" using assms by simp
  define e' where "e' = max (floor_log2 m - 52) (- 1074)"
  define v where "v = of_int (rne (m / pow2 e')) * pow2 e'"
  have q: "0 \<le> m / pow2 e'" using mpos pow2_pos [of e'] by simp
  have v0: "0 \<le> v" using rne_bounds [OF q] pow2_pos [of e'] by (simp add: v_def)
  have "v \<le> (m / pow2 e' + 1) * pow2 e'"
    unfolding v_def using rne_bounds [OF q] pow2_pos [of e']
    by (intro mult_right_mono) auto
  also have "\<dots> = m + pow2 e'" using pow2_pos [of e'] by (simp add: field_simps)
  finally have vm: "v \<le> m + pow2 e'" .
  have "pow2 (floor_log2 m - 52) \<le> pow2 (floor_log2 m)" by (intro pow2_mono) simp
  then have a: "pow2 (floor_log2 m - 52) \<le> B"
    using floor_log2_lower [OF mpos] assms by simp
  have "pow2 (- 1074) \<le> pow2 0" by (intro pow2_mono) simp
  then have b: "pow2 (- 1074) \<le> B" using assms by (simp add: pow2_def)
  have "pow2 e' \<le> B" using a b by (simp add: e'_def max_def)
  then have vB: "v \<le> 2 * B" using vm assms by simp
  then have small: "\<not> 2 ^ 1024 \<le> v" using assms by simp
  have "round64 s m = (if v = 0 then signed_zero s else Fin (if s then - v else v))"
    unfolding round64_def Let_def e'_def [symmetric] v_def [symmetric]
    using False small by simp
  then show ?thesis using v0 vB assms by (auto simp: signed_zero_def)
qed

lemma sint_abs_bound: "\<bar>sint (i :: 'w::len word)\<bar> \<le> 2 ^ (LENGTH('w) - 1)"
  using sint_ge [of i] sint_lt [of i] by simp

lemma float64_bounded:
  assumes "LENGTH('w::len) \<le> 64"
  shows "is_finite (float64 (i :: 'w word)) \<and> \<bar>val (float64 i)\<bar> \<le> 2 ^ 64"
proof -
  have "(2::int) ^ (LENGTH('w) - 1) \<le> 2 ^ 63" using assms by (intro power_increasing) auto
  then have "\<bar>sint i\<bar> \<le> 2 ^ 63" using sint_abs_bound [of i] by simp
  then have "(of_int \<bar>sint i\<bar> :: rat) \<le> of_int (2 ^ 63)" by (simp only: of_int_le_iff)
  then have "\<bar>of_int (sint i) :: rat\<bar> \<le> 2 ^ 63" by simp
  then show ?thesis
    using round64_bounded [of "\<bar>of_int (sint i)\<bar>" "2 ^ 63" "sint i < 0"]
    by (simp add: float64_def)
qed

lemma fdiv_two_bounded:
  assumes "is_finite x" "\<bar>val x\<bar> \<le> B" "1 \<le> B" "2 * B < 2 ^ 1024"
  shows "is_finite (fdiv x (Fin 2)) \<and> \<bar>val (fdiv x (Fin 2))\<bar> \<le> 2 * B"
proof -
  have "\<bar>val x\<bar> / 2 \<le> B" using assms by simp
  then show ?thesis
    using assms round64_bounded [of "\<bar>val x\<bar> / 2" B "sign x \<noteq> False"]
    by (cases x) (auto simp: fdiv_def is_zero_def)
qed

lemma fadd_bounded:
  assumes "is_finite x" "is_finite y" "\<bar>val x\<bar> + \<bar>val y\<bar> \<le> B" "1 \<le> B" "2 * B < 2 ^ 1024"
  shows "is_finite (fadd x y)"
proof -
  have "\<bar>val x + val y\<bar> \<le> B" using assms by simp
  then have "is_finite (round64 (val x + val y < 0) \<bar>val x + val y\<bar>)"
    using assms round64_bounded [of "\<bar>val x + val y\<bar>" B] by simp
  then show ?thesis using assms
    by (cases x; cases y) (auto simp: fadd_def Let_def signed_zero_def)
qed

lemma centroid_finite:
  assumes "LENGTH('w::len) \<le> 64"
  shows "is_finite (fst (centroid (r :: 'w word Rectangle))) \<and> is_finite (snd (centroid r))"
proof -
  have two: "\<And>i :: 'w word. is_finite (fadd (float64 i) (fdiv (float64 (j :: 'w word)) (Fin 2)))" for j
  proof -
    fix i :: "'w word"
    have a: "is_finite (float64 i) \<and> \<bar>val (float64 i)\<bar> \<le> 2 ^ 64"
      using assms by (rule float64_bounded)
    have b: "is_finite (float64 j) \<and> \<bar>val (float64 j)\<bar> \<le> 2 ^ 64"
      using assms by (rule float64_bounded)
    have c: "is_finite (fdiv (float64 j) (Fin 2)) \<and> \<bar>val (fdiv (float64 j) (Fin 2))\<bar> \<le> 2 * 2 ^ 64"
      using b by (intro fdiv_two_bounded) auto
    show "is_finite (fadd (float64 i) (fdiv (float64 j) (Fin 2)))"
      using a c by (intro fadd_bounded [where B = "2 ^ 66"]) auto
  qed
  show ?thesis by (simp add: centroid_def two)
qed

lemma is_finite_fneg: "is_finite (fneg x) = is_finite x"
  by (cases x) (auto simp: fneg_def)

section \<open>Facts about the float64 operations\<close>

text \<open>
  Zero times a finite value is a zero, a sum of zeros is a zero, and \<open>0 + 1\<close> is \<open>1\<close>:
  what a product with a matrix of finite top rows needs to keep the bottom row. An
  infinity or a NaN, once in a sum, stays.
\<close>

lemma round64_zero: "round64 s 0 = signed_zero s"
  by (simp add: round64_def)

lemma feq_zero_iff: "feq x (Fin 0) = is_zero x"
  by (cases x) (auto simp: feq_def is_zero_def)

lemma feq_one_iff: "feq x (Fin 1) = (x = Fin 1)"
  by (cases x) (auto simp: feq_def)

lemma is_zero_signed_zero: "is_zero (signed_zero s)"
  by (simp add: is_zero_def signed_zero_def)

lemma is_zero_cases: "is_zero x \<Longrightarrow> x = Fin 0 \<or> x = NegZero"
  by (cases x) (auto simp: is_zero_def)

lemma is_zero_simps: "is_zero (Fin 0)" "is_zero NegZero" "\<not> is_zero (Fin 1)"
  by (simp_all add: is_zero_def)

lemma fmul_zero_left: "is_zero z \<Longrightarrow> is_finite b \<Longrightarrow> is_zero (fmul z b)"
  by (cases b) (auto simp: fmul_def round64_zero is_zero_signed_zero dest!: is_zero_cases)

lemma fmul_one_zero: "is_zero z \<Longrightarrow> is_zero (fmul (Fin 1) z)"
  by (auto simp: fmul_def round64_zero is_zero_signed_zero dest!: is_zero_cases)

lemma fmul_one_one: "fmul (Fin 1) (Fin 1) = Fin 1"
  by (simp add: fmul_def round64_one)

lemma fadd_zero_zero: "is_zero x \<Longrightarrow> is_zero y \<Longrightarrow> is_zero (fadd x y)"
  by (auto simp: fadd_def is_zero_signed_zero dest!: is_zero_cases)

lemma fadd_zero_one: "is_zero z \<Longrightarrow> fadd z (Fin 1) = Fin 1"
  by (auto simp: fadd_def round64_one dest!: is_zero_cases)

lemma Mul_bottom_row:
  assumes "bottom_row_ok a" "bottom_row_ok b" "top_rows_finite b"
  shows "bottom_row_ok (Mul a b)"
  using assms
  by (simp add: bottom_row_ok_def top_rows_finite_def Mul_def feq_zero_iff feq_one_iff
      fmul_zero_left fmul_one_zero fmul_one_one fadd_zero_zero fadd_zero_one)

lemma bottom_row_I: "bottom_row_ok I"
  by (simp add: bottom_row_ok_def I_def feq_def)

lemma Mul_right_bottom_row:
  assumes "bottom_row_ok a"
    and "is_finite p0" "is_finite p1" "is_finite p2" "is_finite p3" "is_finite p4" "is_finite p5"
  shows "bottom_row_ok (Mul a \<lparr>e0 = p0, e1 = p1, e2 = p2, e3 = p3, e4 = p4, e5 = p5,
                                 e6 = Fin 0, e7 = Fin 0, e8 = Fin 1\<rparr>)"
  using assms by (intro Mul_bottom_row) (simp_all add: bottom_row_ok_def top_rows_finite_def feq_def)

lemma Scale_bottom_row:
  "bottom_row_ok a \<Longrightarrow> is_finite (fdiv (Fin 1) x) \<Longrightarrow> is_finite (fdiv (Fin 1) y)
   \<Longrightarrow> bottom_row_ok (Scale a x y)"
  unfolding Scale_def by (intro Mul_right_bottom_row) simp_all

lemma Rotate_bottom_row:
  "bottom_row_ok a \<Longrightarrow> is_finite (fst (sincos t)) \<Longrightarrow> is_finite (snd (sincos t))
   \<Longrightarrow> bottom_row_ok (Rotate sincos a t)"
  unfolding Rotate_def by (cases "sincos t") (simp add: Mul_right_bottom_row is_finite_fneg)

lemma Shear_bottom_row:
  "bottom_row_ok a \<Longrightarrow> top_rows_finite (shear_inverse x y) \<Longrightarrow> bottom_row_ok (Shear a x y)"
  unfolding Shear_def shear_inverse_def Let_def top_rows_finite_def
  by (intro Mul_right_bottom_row) simp_all

lemma Translate_bottom_row:
  "bottom_row_ok a \<Longrightarrow> is_finite x \<Longrightarrow> is_finite y \<Longrightarrow> bottom_row_ok (Translate a x y)"
  unfolding Translate_def by (intro Mul_right_bottom_row) (simp_all add: is_finite_fneg)

lemma sandwich_bottom_row:
  assumes "bottom_row_ok a" "top_rows_finite a"
    and "is_finite sx" "is_finite sy" "is_finite dx" "is_finite dy"
  shows "bottom_row_ok (Translate (Mul (Translate I (fneg sx) (fneg sy)) a) dx dy)"
  using assms
  by (intro Translate_bottom_row Mul_bottom_row bottom_row_I) (simp_all add: is_finite_fneg)

lemma Center_bottom_row:
  "bottom_row_ok a \<Longrightarrow> top_rows_finite a \<Longrightarrow> is_finite x \<Longrightarrow> is_finite y
   \<Longrightarrow> bottom_row_ok (Center a x y)"
  unfolding Center_def by (rule sandwich_bottom_row)

lemma CenterFit_bottom_row:
  fixes dst src :: "'w::len word Rectangle"
  assumes "bottom_row_ok a" "top_rows_finite a" "LENGTH('w) \<le> 64"
  shows "bottom_row_ok (CenterFit a dst src)"
proof -
  have "CenterFit a dst src =
     Translate (Mul (Translate I (fneg (fst (centroid src))) (fneg (snd (centroid src)))) a)
       (fst (centroid dst)) (snd (centroid dst))"
    by (simp add: CenterFit_def centroid_def Let_def)
  then show ?thesis
    using assms centroid_finite [of src] centroid_finite [of dst]
    by (simp add: sandwich_bottom_row)
qed

lemma not_finite_fadd_left: "\<not> is_finite x \<Longrightarrow> \<not> is_finite (fadd x y)"
  by (cases x; cases y) (auto simp: fadd_def)

lemma not_finite_fmul_inf: "\<not> is_finite (fmul a (Infty s))"
  by (cases a) (auto simp: fmul_def)

lemma fsub_one_one: "fsub (Fin 1) (Fin 1) = Fin 0"
  by (simp add: fsub_def fadd_def fneg_def signed_zero_def)

section \<open>Facts about the loops\<close>

text \<open>
  The loops keep the rectangle of the buffer, and they keep every pixel whose point fails
  the bounds check: the only write is the sampler's, at the pixel being visited, after
  the check has passed there.
\<close>

lemma xloop_step: "x <s xmax \<Longrightarrow> xloop smp a srcb same srcRgba y xmax x d =
    xloop smp a srcb same srcRgba y xmax (x + 1) (pixel_step smp a srcb same srcRgba y x d)"
  by (subst xloop.simps) simp

lemma xloop_stop: "\<not> x <s xmax \<Longrightarrow> xloop smp a srcb same srcRgba y xmax x d = d"
  by (subst xloop.simps) simp

lemma yloop_step: "y <s Y (MaxP b) \<Longrightarrow> yloop smp a srcb same srcRgba b y d =
    yloop smp a srcb same srcRgba b (y + 1) (xloop smp a srcb same srcRgba y (X (MaxP b)) (X (MinP b)) d)"
  by (subst yloop.simps) simp

lemma yloop_stop: "\<not> y <s Y (MaxP b) \<Longrightarrow> yloop smp a srcb same srcRgba b y d = d"
  by (subst yloop.simps) simp

lemma pixel_step_Rect: "Rect (pixel_step smp a srcb same srcRgba y x d) = Rect d"
  by (simp add: pixel_step_def binterpRGBA_def split: prod.splits)

lemma pixel_step_Pix:
  "\<not> inBounds srcb (fst (pt a qx qy)) (snd (pt a qx qy))
   \<Longrightarrow> Pix (pixel_step smp a srcb same srcRgba y x d) (qx, qy) = Pix d (qx, qy)"
  by (auto simp: pixel_step_def binterpRGBA_def split: prod.splits)

lemma xloop_Rect: "Rect (xloop smp a srcb same srcRgba y xmax x d) = Rect d"
proof (induction smp a srcb same srcRgba y xmax x d rule: xloop.induct)
  case (1 smp a srcb same srcRgba y xmax x d)
  show ?case
  proof (cases "x <s xmax")
    case True
    then show ?thesis
      using "1.IH" by (simp add: xloop_step pixel_step_Rect)
  next
    case False
    then show ?thesis by (simp add: xloop_stop)
  qed
qed

lemma xloop_Pix:
  assumes "\<not> inBounds srcb (fst (pt a qx qy)) (snd (pt a qx qy))"
  shows "Pix (xloop smp a srcb same srcRgba y xmax x d) (qx, qy) = Pix d (qx, qy)"
  using assms
proof (induction smp a srcb same srcRgba y xmax x d rule: xloop.induct)
  case (1 smp a srcb same srcRgba y xmax x d)
  show ?case
  proof (cases "x <s xmax")
    case True
    then show ?thesis
      using "1.IH" "1.prems" by (simp add: xloop_step pixel_step_Pix)
  next
    case False
    then show ?thesis by (simp add: xloop_stop)
  qed
qed

lemma yloop_Rect: "Rect (yloop smp a srcb same srcRgba b y d) = Rect d"
proof (induction smp a srcb same srcRgba b y d rule: yloop.induct)
  case (1 smp a srcb same srcRgba b y d)
  show ?case
  proof (cases "y <s Y (MaxP b)")
    case True
    then show ?thesis
      using "1.IH" by (simp add: yloop_step xloop_Rect)
  next
    case False
    then show ?thesis by (simp add: yloop_stop)
  qed
qed

lemma yloop_Pix:
  assumes "\<not> inBounds srcb (fst (pt a qx qy)) (snd (pt a qx qy))"
  shows "Pix (yloop smp a srcb same srcRgba b y d) (qx, qy) = Pix d (qx, qy)"
  using assms
proof (induction smp a srcb same srcRgba b y d rule: yloop.induct)
  case (1 smp a srcb same srcRgba b y d)
  show ?case
  proof (cases "y <s Y (MaxP b)")
    case True
    then show ?thesis
      using "1.IH" "1.prems" by (simp add: yloop_step xloop_Pix)
  next
    case False
    then show ?thesis by (simp add: yloop_stop)
  qed
qed

section \<open>Evaluation at the concrete inputs\<close>

lemma mkRect_sel:
  "X (MinP (mkRect x0 y0 x1 y1)) = x0" "Y (MinP (mkRect x0 y0 x1 y1)) = y0"
  "X (MaxP (mkRect x0 y0 x1 y1)) = x1" "Y (MaxP (mkRect x0 y0 x1 y1)) = y1"
  "MinP (mkRect x0 y0 x1 y1) = \<lparr>X = x0, Y = y0\<rparr>"
  by (simp_all add: mkRect_def)

lemma round64_three_halves: "round64 s (3 / 2) = Fin (if s then - (3 / 2) else 3 / 2)"
  using round64_exact [of 3 "- 1" s] by (simp add: pow2_def)

lemma round64_one_s: "round64 s 1 = Fin (if s then - 1 else 1)"
  using round64_exact [of 1 0 s] by (simp add: pow2_def)

lemma float64_0: "float64 (0 :: 'w::len word) = Fin 0"
  by (simp add: float64_def round64_zero signed_zero_def)

lemma float64_1: "float64 (1 :: 64 word) = Fin 1"
  by (simp add: float64_def round64_one_s)

lemma float64_2: "float64 (2 :: 64 word) = Fin 2"
  using round64_exact [of 1 1 False] by (simp add: float64_def pow2_def)

lemma pt_I_0_0: "pt I (0 :: 64 word) (0 :: 64 word) = (Fin (1 / 2), Fin (1 / 2))"
  by (simp add: pt_def I_def Let_def float64_0 fadd_def fmul_def round64_half round64_zero signed_zero_def)

lemma pt_I_1_0: "pt I (1 :: 64 word) (0 :: 64 word) = (Fin (3 / 2), Fin (1 / 2))"
  by (simp add: pt_def I_def Let_def float64_0 float64_1 fadd_def fmul_def round64_half
      round64_three_halves round64_zero signed_zero_def)

lemma inBounds_1x1_centre: "inBounds (mkRect (0 :: 64 word) 0 1 1) (Fin (1 / 2)) (Fin (1 / 2))"
  by (simp add: inBounds_def mkRect_sel float64_0 float64_1 flt_def fge_def)

lemma inBounds_1x1_right: "\<not> inBounds (mkRect (0 :: 64 word) 0 1 1) (Fin (3 / 2)) (Fin (1 / 2))"
  by (simp add: inBounds_def mkRect_sel float64_0 float64_1 flt_def fge_def)

lemma w1: "(0 :: 64 word) <s 1" "(0 :: 64 word) <s 2" "(1 :: 64 word) <s 2" "\<not> (2 :: 64 word) <s 2"
  "\<not> (1 :: 64 word) <s 1" "(0 :: 64 word) \<le>s 0" "(0 :: 64 word) \<le>s 1"
  by (simp_all add: word_sless_alt word_sle_eq)

lemma loops_2x1:
  "yloop smp I (mkRect 0 0 1 1) same s (mkRect (0 :: 64 word) 0 2 1) 0 d =
     binterpRGBA smp d 0 0 (if same then d else s) (Fin (1 / 2)) (Fin (1 / 2))"
  by (simp add: yloop_step yloop_stop xloop_step xloop_stop mkRect_sel w1 pixel_step_def
      pt_I_0_0 pt_I_1_0 inBounds_1x1_centre inBounds_1x1_right)

lemma size_ok_2x1: "rgba_size_ok (mkRect (0 :: 64 word) 0 2 1)"
  by (simp add: rgba_size_ok_def Dx_def Dy_def mkRect_sel)

lemma top_rows_finite_I: "top_rows_finite I"
  by (simp add: top_rows_finite_def I_def)

lemma is_finite_half: "is_finite (fdiv (Fin 1) (Fin 2))"
  by (simp add: fdiv_def is_zero_def round64_half)

lemma shear_inverse_zero_finite: "top_rows_finite (shear_inverse (Fin 0) (Fin 0))"
  by (simp add: top_rows_finite_def shear_inverse_def Let_def fsub_def fmul_def fneg_def fadd_def
      fdiv_def is_zero_def round64_zero round64_one signed_zero_def)

section \<open>The pixel pipeline\<close>

text \<open>
  The sibling path. For a destination that is an \<^verbatim>\<open>*image.RGBA\<close> and a source that can be
  normalized (the destination itself included), the call returns \<^verbatim>\<open>nil\<close> and every pixel
  \<open>(x, y)\<close> of \<open>dst.Bounds()\<close> whose point \<open>a.pt(x, y)\<close> fails the bounds check of the
  source has after the call the value it had before: nothing is written there.
\<close>

lemma Transform_RGBA_keeps_unsampled_pixel:
  fixes h :: "'w::len word heap"
  assumes "h dp = ImRGBA d"
    and "buffer_ok (h sp)"
    and "In (x, y) (Bounds (h dp))"
    and "\<not> inBounds (Bounds (h sp)) (fst (pt a x y)) (snd (pt a x y))"
  shows "\<exists>h'. Transform smp a h (Some (Addr dp)) (Some (Addr sp)) = Inr (None, h')
              \<and> At (h' dp) (x, y) = At (h dp) (x, y)"
proof (cases "h sp")
  case (ImRGBA p)
  then show ?thesis
    using assms
    by (simp add: Transform_def srcRgba_of_def dstRgba_of_def Let_def yloop_Rect yloop_Pix)
next
  case (ImOther g)
  then have "rgba_size_ok (GBounds g)" using assms by (simp add: buffer_ok_def)
  then show ?thesis
    using assms ImOther
    by (simp add: Transform_def srcRgba_of_def dstRgba_of_def NewRGBA_def Let_def
        yloop_Rect yloop_Pix)
qed

text \<open>
  At the 2x1 RGBA destination and the 1x1 source under the identity: the centre of pixel
  \<open>(1, 0)\<close> maps to \<open>(1.5, 0.5)\<close>, outside the source, and the pixel is still white
  after the call.
\<close>

lemma Transform_RGBA_keeps_unsampled_pixel_example:
  "In (1, 0) (Bounds (heap_of dst_2x1_RGBA src_1x1 0))
   \<and> \<not> inBounds (Bounds (heap_of dst_2x1_RGBA src_1x1 1)) (fst (pt I (1 :: 64 word) 0)) (snd (pt I (1 :: 64 word) 0))
   \<and> (\<exists>h'. Transform (const_sampler (7, 7, 7, 255)) I (heap_of dst_2x1_RGBA src_1x1)
              (Some (Addr 0)) (Some (Addr 1)) = Inr (None, h')
            \<and> At (h' 0) (1, 0) = white)"
proof -
  let ?h = "heap_of dst_2x1_RGBA src_1x1"
  have h0: "?h 0 = ImRGBA \<lparr>Pix = (\<lambda>q. white), Rect = mkRect 0 0 2 1\<rparr>"
    by (simp add: heap_of_def dst_2x1_RGBA_def)
  have ok: "buffer_ok (?h 1)"
    by (simp add: heap_of_def src_1x1_def buffer_ok_def)
  have inb: "In (1, 0) (Bounds (?h 0))"
    by (simp add: h0 In_def mkRect_sel w1)
  have out: "\<not> inBounds (Bounds (?h 1)) (fst (pt I (1 :: 64 word) 0)) (snd (pt I (1 :: 64 word) 0))"
    by (simp add: heap_of_def src_1x1_def pt_I_1_0 inBounds_1x1_right)
  have before: "At (?h 0) (1, 0) = white"
    by (simp add: h0 In_def mkRect_sel w1)
  show ?thesis
    using Transform_RGBA_keeps_unsampled_pixel [OF h0 ok inb out, of "const_sampler (7, 7, 7, 255)"]
      inb out before
    by (simp add: heap_of_def)
qed

text \<open>
  C1, at the input where the code departs from it. The destination is a 2x1 image that is
  not an \<^verbatim>\<open>*image.RGBA\<close>, filled with white; the source is 1x1 and the matrix the identity.
  Pixel \<open>(1, 0)\<close> lies in \<open>dst.Bounds()\<close> and its point \<open>(1.5, 0.5)\<close> fails the bounds
  check, so the claim has it white after the call. The code runs the loop on a fresh zero
  buffer, which it never fills from the destination, and draws that buffer back over all
  of \<open>dst.Bounds()\<close>: the call returns \<^verbatim>\<open>nil\<close> and the pixel is zero.
\<close>

theorem Transform_other_dst_overwrites_unsampled_pixel:
  "In (1, 0) (Bounds (heap_of dst_2x1_other src_1x1 0))
   \<and> \<not> inBounds (Bounds (heap_of dst_2x1_other src_1x1 1)) (fst (pt I (1 :: 64 word) 0)) (snd (pt I (1 :: 64 word) 0))
   \<and> At (heap_of dst_2x1_other src_1x1 0) (1, 0) = white
   \<and> pixel_after (Transform (const_sampler (7, 7, 7, 255)) I (heap_of dst_2x1_other src_1x1)
         (Some (Addr 0)) (Some (Addr 1))) 0 (1, 0)
       = Some (0, 0, 0, 0)
   \<and> pixel_after (Transform (const_sampler (7, 7, 7, 255)) I (heap_of dst_2x1_other src_1x1)
         (Some (Addr 0)) (Some (Addr 1))) 0 (1, 0)
       \<noteq> Some (At (heap_of dst_2x1_other src_1x1 0) (1, 0))"
  by (simp add: heap_of_def dst_2x1_other_def src_1x1_def In_def w1 pt_I_1_0 inBounds_1x1_right
      Transform_def srcRgba_of_def dstRgba_of_def Let_def pixel_after_def white_def draw_Draw_def
      drawn_def src_point_def NewRGBA_def size_ok_2x1 loops_2x1 mkRect_sel binterpRGBA_def
      const_sampler_def)

text \<open>
  C2, at the inputs where the code departs from it. With a NaN coordinate both
  comparisons of \<open>inBounds\<close> are false, so neither early return is taken and the check
  passes: for every rectangle at \<open>(NaN, NaN)\<close>, and for the rectangle \<open>(0,0)-(2,2)\<close> at
  \<open>(NaN, 0.5)\<close>. The pipeline reaches it: under \<open>I.Scale(0, 0)\<close> every destination
  pixel maps to \<open>(NaN, NaN)\<close>.
\<close>

theorem inBounds_accepts_NaN:
  "inBounds b NaN NaN
   \<and> inBounds (mkRect (0 :: 64 word) 0 2 2) NaN (Fin (1 / 2))
   \<and> pt (Scale I (Fin 0) (Fin 0)) x0 y0 = (NaN, NaN)"
proof -
  have a: "inBounds b NaN NaN" by (simp add: inBounds_def flt_def fge_def)
  have b: "inBounds (mkRect (0 :: 64 word) 0 2 2) NaN (Fin (1 / 2))"
    by (simp add: inBounds_def mkRect_sel float64_0 float64_2 flt_def fge_def)
  have e1: "e1 (Scale I (Fin 0) (Fin 0)) = NaN"
    by (simp add: Scale_def Mul_def I_def fdiv_def fmul_def fadd_def is_zero_def)
  have e3: "e3 (Scale I (Fin 0) (Fin 0)) = NaN"
    by (simp add: Scale_def Mul_def I_def fdiv_def fmul_def fadd_def is_zero_def)
  have c: "pt (Scale I (Fin 0) (Fin 0)) x0 y0 = (NaN, NaN)"
    by (simp add: pt_def Let_def e1 e3 fmul_def fadd_def)
  show ?thesis using a b c by simp
qed




text \<open>
  C9. For non-nil \<open>dst\<close> and \<open>src\<close>, \<open>TransformCenter(a, dst, src)\<close> returns what
  \<open>a.CenterFit(dst.Bounds(), src.Bounds()).Transform(dst, src)\<close> returns and leaves the
  same heap, so the same destination image (and panics where the composition panics);
  for pointers to images, that is \<open>Transform\<close> of the centred matrix.
\<close>

theorem TransformCenter_is_CenterFit_then_Transform:
  "TransformCenter smp a h (Some dr) (Some sr) = CenterFit_then_Transform smp a h (Some dr) (Some sr)
   \<and> TransformCenter smp a h (Some (Addr dp)) (Some (Addr sp)) =
       Transform smp (CenterFit a (Bounds (h dp)) (Bounds (h sp))) h (Some (Addr dp)) (Some (Addr sp))"
  by (simp add: TransformCenter_def CenterFit_then_Transform_def)

text \<open>
  C10. \<open>TransformCenter\<close> checks its arguments before it touches them: with \<open>dst\<close> or
  \<open>src\<close> \<^verbatim>\<open>nil\<close> it returns an error, not the panic of a \<open>Bounds\<close> call on \<^verbatim>\<open>nil\<close>,
  and the heap is the one before the call.
\<close>

theorem TransformCenter_nil_is_error:
  "dst = None \<or> src = None \<Longrightarrow> \<exists>e. TransformCenter smp a h dst src = Inr (Some e, h)"
  by (auto simp: TransformCenter_def)

text \<open>
  The theorem at a \<^verbatim>\<open>nil\<close> destination and at a \<^verbatim>\<open>nil\<close> source.
\<close>

theorem TransformCenter_nil_is_error_witness:
  "(\<exists>e. TransformCenter (const_sampler white) I (heap_of dst_2x1_RGBA src_1x1) None (Some (Addr 1))
          = Inr (Some e, heap_of dst_2x1_RGBA src_1x1))
   \<and> (\<exists>e. TransformCenter (const_sampler white) I (heap_of dst_2x1_RGBA src_1x1) (Some (Addr 0)) None
          = Inr (Some e, heap_of dst_2x1_RGBA src_1x1))"
  using TransformCenter_nil_is_error [of None "Some (Addr 1)" "const_sampler white" I "heap_of dst_2x1_RGBA src_1x1"]
    TransformCenter_nil_is_error [of "Some (Addr 0)" None "const_sampler white" I "heap_of dst_2x1_RGBA src_1x1"]
  by simp

section \<open>The matrix builders\<close>

text \<open>
  C4. For every matrix \<open>a\<close> and integer destination coordinates \<open>(x0, y0)\<close>,
  \<open>a.pt(x0, y0)\<close> is the matrix applied to the pixel centre:
  \<open>((x0+0.5)*a[0] + (y0+0.5)*a[1] + a[2], (x0+0.5)*a[3] + (y0+0.5)*a[4] + a[5])\<close>,
  every operation a float64 operation.
\<close>

theorem pt_is_matrix_at_pixel_centre: "pt a x0 y0 = matrix_at_centre a x0 y0"
  by (simp add: pt_def matrix_at_centre_def row_at_def pixel_centre_def Let_def)

text \<open>
  C5, as the code has it. Let the bottom row of \<open>a\<close> be \<open>(0, 0, 1)\<close>. Then \<open>a.Mul(b)\<close>
  has the bottom row \<open>(0, 0, 1)\<close> when \<open>b\<close> has it and the six entries of the top two
  rows of \<open>b\<close> are finite; so have \<open>Scale\<close>, \<open>Rotate\<close>, \<open>Shear\<close> and \<open>Translate\<close> when
  the entries of their right-hand factor are finite (\<open>1/x\<close> and \<open>1/y\<close>; the sine and the
  cosine; the entries of the inverse shear; \<open>x\<close> and \<open>y\<close>), \<open>Center\<close> when moreover the
  top two rows of \<open>a\<close> are finite, and \<open>CenterFit\<close> when the top two rows of \<open>a\<close> are
  finite (the centroids of rectangles over integers of at most 64 bits are finite).
\<close>

theorem bottom_row_kept_by_finite_factors:
  fixes dst src :: "'w::len word Rectangle"
  assumes "bottom_row_ok a"
  shows "(bottom_row_ok b \<and> top_rows_finite b \<longrightarrow> bottom_row_ok (Mul a b))
    \<and> (is_finite (fdiv (Fin 1) sx) \<and> is_finite (fdiv (Fin 1) sy) \<longrightarrow> bottom_row_ok (Scale a sx sy))
    \<and> (is_finite (fst (sincos t)) \<and> is_finite (snd (sincos t)) \<longrightarrow> bottom_row_ok (Rotate sincos a t))
    \<and> (top_rows_finite (shear_inverse hx hy) \<longrightarrow> bottom_row_ok (Shear a hx hy))
    \<and> (is_finite tx \<and> is_finite ty \<longrightarrow> bottom_row_ok (Translate a tx ty))
    \<and> (top_rows_finite a \<and> is_finite cx \<and> is_finite cy \<longrightarrow> bottom_row_ok (Center a cx cy))
    \<and> (top_rows_finite a \<and> LENGTH('w) \<le> 64 \<longrightarrow> bottom_row_ok (CenterFit a dst src))"
  using assms
  by (simp add: Mul_bottom_row Scale_bottom_row Rotate_bottom_row Shear_bottom_row
      Translate_bottom_row Center_bottom_row CenterFit_bottom_row)

text \<open>
  The theorem at the identity, with the factors 2, the angle 0, the slopes 0, the
  distances 3 and two small rectangles.
\<close>

theorem bottom_row_kept_by_finite_factors_witness:
  "bottom_row_ok I
   \<and> bottom_row_ok I \<and> top_rows_finite I \<and> bottom_row_ok (Mul I I)
   \<and> is_finite (fdiv (Fin 1) (Fin 2)) \<and> bottom_row_ok (Scale I (Fin 2) (Fin 2))
   \<and> is_finite (fst (sincos_at_zero (Fin 0))) \<and> is_finite (snd (sincos_at_zero (Fin 0)))
   \<and> bottom_row_ok (Rotate sincos_at_zero I (Fin 0))
   \<and> top_rows_finite (shear_inverse (Fin 0) (Fin 0)) \<and> bottom_row_ok (Shear I (Fin 0) (Fin 0))
   \<and> is_finite (Fin 3) \<and> bottom_row_ok (Translate I (Fin 3) (Fin 3))
   \<and> bottom_row_ok (Center I (Fin 3) (Fin 3))
   \<and> LENGTH(64) \<le> 64
   \<and> bottom_row_ok (CenterFit I (mkRect (0 :: 64 word) 0 2 1) (mkRect 0 0 1 1))"
  using bottom_row_kept_by_finite_factors [OF bottom_row_I, of I "Fin 2" "Fin 2" sincos_at_zero "Fin 0"
      "Fin 0" "Fin 0" "Fin 3" "Fin 3" "Fin 3" "Fin 3" "mkRect (0 :: 64 word) 0 2 1" "mkRect 0 0 1 1"]
    bottom_row_I top_rows_finite_I is_finite_half shear_inverse_zero_finite
  by (simp add: sincos_at_zero_def)

text \<open>
  C5 as stated, for all float arguments, fails: \<open>I\<close> has the bottom row \<open>(0, 0, 1)\<close>,
  and \<open>I.Scale(0, 1)\<close> has not, since its entry 6 is \<open>0 * Inf + 0 * 0 + 1 * 0\<close>, a NaN.
\<close>

theorem bottom_row_lost_counterexample:
  "bottom_row_ok I \<and> \<not> bottom_row_ok (Scale I (Fin 0) (Fin 1))"
  by (simp add: bottom_row_I) (simp add: bottom_row_ok_def Scale_def Mul_def I_def fdiv_def fmul_def fadd_def is_zero_def feq_def)

text \<open>
  C6. \<open>CenterFit(a, dst, src)\<close> is \<open>I.Translate(-sx, -sy).Mul(a).Translate(dx, dy)\<close>
  with \<open>(dx, dy)\<close> the centroid of the destination rectangle, in the right-hand factor,
  and \<open>(sx, sy)\<close> the centroid of the source rectangle, in the left-hand factor.
\<close>

theorem CenterFit_is_centroid_sandwich:
  "CenterFit a dst src =
     Translate (Mul (Translate I (fneg (fst (centroid src))) (fneg (snd (centroid src)))) a)
       (fst (centroid dst)) (snd (centroid dst))"
  by (simp add: CenterFit_def centroid_def Let_def)

text \<open>
  C7. \<open>Scale(a, x, y)\<close> is \<open>a.Mul(S)\<close> with \<open>S = diag(1/x, 1/y, 1)\<close>, the reciprocal
  convention; a zero factor raises nothing: \<open>1/x\<close> is then the infinity with the sign
  of the zero.
\<close>

theorem Scale_is_Mul_reciprocal_diag:
  "Scale a x y = Mul a (diag3 (fdiv (Fin 1) x) (fdiv (Fin 1) y) (Fin 1))
   \<and> fdiv (Fin 1) (Fin 0) = Infty False
   \<and> fdiv (Fin 1) NegZero = Infty True"
  by (simp add: Scale_def diag3_def fdiv_def is_zero_def)

text \<open>
  C8. \<open>Shear(a, x, y)\<close> is \<open>a.Mul\<close> of the inverse shear matrix, whose entries are
  divided by \<open>d = 1 - x*y\<close>, for all floats: it has no error path. When \<open>x*y = 1\<close> the
  divisor is zero and the result has a non-finite entry (its entry 0 is an infinity or
  a NaN).
\<close>

theorem Shear_total_nonfinite_at_unit_product:
  "Shear a x y = Mul a (shear_inverse x y)
   \<and> (feq (fmul x y) (Fin 1) \<longrightarrow> \<not> is_finite (e0 (Shear a x y)))"
proof -
  have "\<not> is_finite (e0 (Shear a x y))" if "fmul x y = Fin 1"
  proof -
    have inf: "fdiv (Fin 1) (Fin 0) = Infty False" by (simp add: fdiv_def is_zero_def)
    have "e0 (Shear a x y) =
        fadd (fadd (fmul (e0 a) (Infty False)) (fmul (e1 a) (fdiv (fneg y) (Fin 0))))
          (fmul (e2 a) (Fin 0))"
      by (simp add: Shear_def Mul_def Let_def that fsub_one_one inf)
    then show ?thesis by (simp add: not_finite_fadd_left not_finite_fmul_inf)
  qed
  then show ?thesis
    by (simp add: Shear_def shear_inverse_def Let_def feq_one_iff)
qed

text \<open>
  The theorem at \<open>x = y = 1\<close> and the identity.
\<close>

theorem Shear_total_nonfinite_at_unit_product_witness:
  "feq (fmul (Fin 1) (Fin 1)) (Fin 1) \<and> \<not> is_finite (e0 (Shear I (Fin 1) (Fin 1)))"
proof -
  have unit: "feq (fmul (Fin 1) (Fin 1)) (Fin 1)" by (simp add: fmul_one_one feq_def)
  from Shear_total_nonfinite_at_unit_product [of I "Fin 1" "Fin 1"] unit
  show ?thesis by blast
qed

end
